theory Spec2Isabelle
  imports Complex_Main "HOL-Library.Char_ord" "HOL-Library.List_Lexorder"
begin

section \<open>Weighted-wins rankings: a shallow embedding of calculate\_rankings.py\<close>

text \<open>
  The schedule DataFrame is a list of rows. A nullable column (\<open>home_score\<close>,
  \<open>away_score\<close>, \<open>result\<close>) holds \<open>None\<close> where pandas holds NaN. Team codes are
  strings, ordered as Python orders them: lexicographically by character code
  (\<open>Char_ord\<close> with \<open>List_Lexorder\<close>). Python floats are modelled by reals: every
  value the script accumulates is an integer, and the only division is the one of
  the win percentage.
\<close>

subsection \<open>Data\<close>

record game =
  week :: int
  home_team :: string
  away_team :: string
  home_score :: "int option"
  away_score :: "int option"
  result :: "int option"

type_synonym schedule = "game list"

record team_record =
  wins :: int
  losses :: int
  ties :: int

record team_ranking = team_record +
  team :: string
  win_pct :: real
  weighted_wins :: real
  weighted_losses :: real
  total :: real

record snapshot =
  timestamp :: string
  snapshot_week :: int
  season :: int
  rankings :: "team_ranking list"

datatype error = ZeroDivisionError

definition CURRENT_SEASON :: int where
  "CURRENT_SEASON = 2025"

subsection \<open>The pandas operations the script uses\<close>

text \<open>\<open>series.notna()\<close>: the boolean mask of the non-null entries.\<close>

definition notna :: "'a option list \<Rightarrow> bool list" where
  "notna series = map (\<lambda>v. v \<noteq> None) series"

text \<open>\<open>df[mask]\<close>: the rows whose mask entry is true, in their order.\<close>

definition boolean_index :: "'a list \<Rightarrow> bool list \<Rightarrow> 'a list" where
  "boolean_index df msk = map fst (filter snd (zip df msk))"

text \<open>\<open>series == v\<close> on a column without nulls, and \<open>series <= v\<close> on the week column.\<close>

definition series_eq :: "'a list \<Rightarrow> 'a \<Rightarrow> bool list" where
  "series_eq series v = map (\<lambda>x. x = v) series"

definition series_le :: "int list \<Rightarrow> int \<Rightarrow> bool list" where
  "series_le series v = map (\<lambda>x. x \<le> v) series"

text \<open>
  Comparisons of the nullable \<open>result\<close> column with a number: every comparison
  with NaN is false.
\<close>

definition nullable_gt :: "int option list \<Rightarrow> int \<Rightarrow> bool list" where
  "nullable_gt series v = map (\<lambda>x. case x of None \<Rightarrow> False | Some r \<Rightarrow> v < r) series"

definition nullable_lt :: "int option list \<Rightarrow> int \<Rightarrow> bool list" where
  "nullable_lt series v = map (\<lambda>x. case x of None \<Rightarrow> False | Some r \<Rightarrow> r < v) series"

definition nullable_eq :: "int option list \<Rightarrow> int \<Rightarrow> bool list" where
  "nullable_eq series v = map (\<lambda>x. case x of None \<Rightarrow> False | Some r \<Rightarrow> r = v) series"

text \<open>The elementwise \<open>&\<close> and \<open>|\<close> of two masks.\<close>

definition mask_and :: "bool list \<Rightarrow> bool list \<Rightarrow> bool list" where
  "mask_and a b = map2 (\<and>) a b"

definition mask_or :: "bool list \<Rightarrow> bool list \<Rightarrow> bool list" where
  "mask_or a b = map2 (\<or>) a b"

text \<open>
  Python's truth value of the optional \<open>through_week\<close> argument, as tested by
  \<open>if through_week:\<close>: \<open>None\<close> and \<open>0\<close> are false, every other integer is true.
\<close>

fun truthy :: "int option \<Rightarrow> bool" where
  "truthy None = False"
| "truthy (Some n) = (n \<noteq> 0)"

text \<open>
  \<open>round(x, ndigits)\<close> on a float: to the nearest multiple of \<open>10^-ndigits\<close>, a
  half to the even neighbour.
\<close>

definition py_round :: "real \<Rightarrow> nat \<Rightarrow> real" where
  "py_round x ndigits =
     (let y = x * 10 ^ ndigits;
          f = \<lfloor>y\<rfloor>;
          d = y - of_int f;
          n = (if d < 1 / 2 then f else if 1 / 2 < d then f + 1
               else if even f then f else f + 1)
      in of_int n / 10 ^ ndigits)"

text \<open>Float division raises on a zero divisor.\<close>

definition truediv :: "real \<Rightarrow> real \<Rightarrow> error + real" where
  "truediv a b = (if b = 0 then Inl ZeroDivisionError else Inr (a / b))"

text \<open>
  \<open>list.sort(key=..., reverse=True)\<close>: CPython reverses the list, sorts it stably
  in ascending key order and reverses the result, which keeps equal keys in their
  original order.
\<close>

definition sort_reverse :: "('a \<Rightarrow> 'k::linorder) \<Rightarrow> 'a list \<Rightarrow> 'a list" where
  "sort_reverse key xs = rev (sort_key key (rev xs))"

subsection \<open>Completed games and the current week\<close>

definition get_game_results :: "schedule \<Rightarrow> schedule" where
  "get_game_results schedule = boolean_index schedule (notna (map home_score schedule))"

definition get_current_week :: "schedule \<Rightarrow> int" where
  "get_current_week schedule =
     (let completed = get_game_results schedule
      in if completed = [] then 0 else Max (set (map week completed)))"

subsection \<open>Record calculator\<close>

definition get_team_record :: "schedule \<Rightarrow> string \<Rightarrow> int option \<Rightarrow> team_record" where
  "get_team_record schedule tm through_week =
     (let completed0 = get_game_results schedule;
          completed = (if truthy through_week
                       then boolean_index completed0
                              (series_le (map week completed0) (the through_week))
                       else completed0);
          n_wins = length (boolean_index completed
                     (mask_or
                        (mask_and (series_eq (map home_team completed) tm)
                                  (nullable_gt (map result completed) 0))
                        (mask_and (series_eq (map away_team completed) tm)
                                  (nullable_lt (map result completed) 0))));
          n_losses = length (boolean_index completed
                     (mask_or
                        (mask_and (series_eq (map home_team completed) tm)
                                  (nullable_lt (map result completed) 0))
                        (mask_and (series_eq (map away_team completed) tm)
                                  (nullable_gt (map result completed) 0))));
          n_ties = length (boolean_index completed
                     (mask_and
                        (mask_or (series_eq (map home_team completed) tm)
                                 (series_eq (map away_team completed) tm))
                        (nullable_eq (map result completed) 0)))
      in \<lparr>wins = int n_wins, losses = int n_losses, ties = int n_ties\<rparr>)"

subsection \<open>Score calculator\<close>

definition calculate_win_percentage :: "int \<Rightarrow> int \<Rightarrow> int \<Rightarrow> error + real" where
  "calculate_win_percentage w l t =
     (let total_games = w + l + t
      in if total_games = 0 then Inr 0
         else truediv (of_int w + 0.5 * of_int t) (of_int total_games))"

text \<open>The opponent of \<open>tm\<close> in a game, as both loops resolve it.\<close>

definition opponent :: "game \<Rightarrow> string \<Rightarrow> string" where
  "opponent g tm = (if home_team g = tm then away_team g else home_team g)"

definition calculate_weighted_wins :: "schedule \<Rightarrow> string \<Rightarrow> real" where
  "calculate_weighted_wins schedule tm =
     (let completed = get_game_results schedule;
          team_wins = boolean_index completed
                     (mask_or
                        (mask_and (series_eq (map home_team completed) tm)
                                  (nullable_gt (map result completed) 0))
                        (mask_and (series_eq (map away_team completed) tm)
                                  (nullable_lt (map result completed) 0)))
      in fold (\<lambda>g acc. acc + of_int (wins (get_team_record schedule (opponent g tm) None)))
              team_wins 0)"

definition calculate_weighted_losses :: "schedule \<Rightarrow> string \<Rightarrow> real" where
  "calculate_weighted_losses schedule tm =
     (let completed = get_game_results schedule;
          team_losses = boolean_index completed
                     (mask_or
                        (mask_and (series_eq (map home_team completed) tm)
                                  (nullable_lt (map result completed) 0))
                        (mask_and (series_eq (map away_team completed) tm)
                                  (nullable_gt (map result completed) 0)))
      in fold (\<lambda>g acc. acc - of_int (losses (get_team_record schedule (opponent g tm) None)))
              team_losses 0)"

definition calculate_total_score :: "real \<Rightarrow> real \<Rightarrow> real" where
  "calculate_total_score ww wl = ww + wl"

subsection \<open>Ranking engine\<close>

text \<open>
  The body of the loop over the sorted teams appends one row to \<open>rankings\<close>; an
  exception of the win percentage would leave the loop.
\<close>

fun rank_teams :: "schedule \<Rightarrow> string list \<Rightarrow> team_ranking list \<Rightarrow> error + team_ranking list" where
  "rank_teams schedule [] acc = Inr acc"
| "rank_teams schedule (tm # rest) acc =
     (let rec = get_team_record schedule tm None
      in case calculate_win_percentage (wins rec) (losses rec) (ties rec) of
           Inl e \<Rightarrow> Inl e
         | Inr wp \<Rightarrow>
             (let ww = calculate_weighted_wins schedule tm;
                  wl = calculate_weighted_losses schedule tm;
                  tot = calculate_total_score ww wl
              in rank_teams schedule rest
                   (acc @ [\<lparr>wins = wins rec, losses = losses rec, ties = ties rec,
                            team = tm, win_pct = py_round wp 3,
                            weighted_wins = py_round ww 2,
                            weighted_losses = py_round wl 2,
                            total = py_round tot 2\<rparr>])))"

definition calculate_all_rankings :: "schedule \<Rightarrow> error + team_ranking list" where
  "calculate_all_rankings schedule =
     (let completed = get_game_results schedule;
          teams = set (remdups (map home_team completed)) \<union> set (remdups (map away_team completed))
      in case rank_teams schedule (sorted_list_of_set teams) [] of
           Inl e \<Rightarrow> Inl e
         | Inr rows \<Rightarrow> Inr (sort_reverse total rows))"

subsection \<open>Snapshot formatter and the run\<close>

definition format_team_ranking :: "team_ranking \<Rightarrow> team_ranking" where
  "format_team_ranking team_data =
     \<lparr>wins = wins team_data, losses = losses team_data, ties = ties team_data,
      team = team team_data, win_pct = win_pct team_data,
      weighted_wins = weighted_wins team_data,
      weighted_losses = weighted_losses team_data,
      total = total team_data\<rparr>"

text \<open>The wall-clock reading is the parameter \<open>now\<close>.\<close>

definition format_week_data :: "string \<Rightarrow> int \<Rightarrow> team_ranking list \<Rightarrow> snapshot" where
  "format_week_data now wk rs =
     \<lparr>timestamp = now, snapshot_week = wk, season = CURRENT_SEASON,
      rankings = map format_team_ranking rs\<rparr>"

text \<open>
  \<open>main\<close> from the fetched schedule on. The rows are typed, so the six required
  columns are present and \<open>validate_data\<close> passes. The result is \<open>Inr None\<close> when
  the run returns without output, \<open>Inr (Some s)\<close> when the snapshot \<open>s\<close> is handed
  to \<open>save_json_snapshot\<close>, and \<open>Inl e\<close> when an exception is logged and raised again.
\<close>

definition main :: "string \<Rightarrow> schedule option \<Rightarrow> error + snapshot option" where
  "main now fetched =
     (case fetched of
        None \<Rightarrow> Inr None
      | Some schedule \<Rightarrow>
          (let current_week = get_current_week schedule
           in if current_week < 2 then Inr None
              else case calculate_all_rankings schedule of
                     Inl e \<Rightarrow> Inl e
                   | Inr rs \<Rightarrow> Inr (Some (format_week_data now current_week rs))))"

subsection \<open>Vocabulary of the properties\<close>

text \<open>
  The outcome of a game, read off the sign of \<open>result\<close>; a null result is no
  outcome at all.
\<close>

definition home_win :: "game \<Rightarrow> bool" where
  "home_win g = (case result g of None \<Rightarrow> False | Some r \<Rightarrow> 0 < r)"

definition away_win :: "game \<Rightarrow> bool" where
  "away_win g = (case result g of None \<Rightarrow> False | Some r \<Rightarrow> r < 0)"

definition drawn :: "game \<Rightarrow> bool" where
  "drawn g = (case result g of None \<Rightarrow> False | Some r \<Rightarrow> r = 0)"

definition is_win :: "string \<Rightarrow> game \<Rightarrow> bool" where
  "is_win tm g = ((home_team g = tm \<and> home_win g) \<or> (away_team g = tm \<and> away_win g))"

definition is_loss :: "string \<Rightarrow> game \<Rightarrow> bool" where
  "is_loss tm g = ((home_team g = tm \<and> away_win g) \<or> (away_team g = tm \<and> home_win g))"

definition is_tie :: "string \<Rightarrow> game \<Rightarrow> bool" where
  "is_tie tm g = ((home_team g = tm \<or> away_team g = tm) \<and> drawn g)"

text \<open>The games \<open>get_team_record\<close> counts over: a week bound of \<open>0\<close> bounds nothing.\<close>

definition in_scope :: "int option \<Rightarrow> game \<Rightarrow> bool" where
  "in_scope through_week g =
     (home_score g \<noteq> None \<and>
      (case through_week of None \<Rightarrow> True | Some w \<Rightarrow> w = 0 \<or> week g \<le> w))"

text \<open>A completed game in the words of the specification: both scores are known.\<close>

definition completed_both :: "game \<Rightarrow> bool" where
  "completed_both g = (home_score g \<noteq> None \<and> away_score g \<noteq> None)"

text \<open>Three games used as concrete inputs.\<close>

definition kc_bal :: game where
  "kc_bal = \<lparr>week = 1, home_team = ''KC'', away_team = ''BAL'',
             home_score = Some 27, away_score = Some 20, result = Some 7\<rparr>"

definition buf_kc :: game where
  "buf_kc = \<lparr>week = 2, home_team = ''BUF'', away_team = ''KC'',
             home_score = Some 20, away_score = Some 27, result = Some (- 7)\<rparr>"


definition unplayed :: game where
  "unplayed = \<lparr>week = 3, home_team = ''KC'', away_team = ''NYJ'',
             home_score = None, away_score = None, result = None\<rparr>"

text \<open>The fixture of the test suite: four teams, two completed weeks, and its ranking.\<close>

definition mock_week_2_schedule :: schedule where
  "mock_week_2_schedule =
     [\<lparr>week = 1, home_team = ''KC'', away_team = ''BAL'',
       home_score = Some 27, away_score = Some 20, result = Some 7\<rparr>,
      \<lparr>week = 1, home_team = ''BUF'', away_team = ''NYJ'',
       home_score = Some 24, away_score = Some 17, result = Some 7\<rparr>,
      \<lparr>week = 2, home_team = ''KC'', away_team = ''BUF'',
       home_score = Some 28, away_score = Some 21, result = Some 7\<rparr>,
      \<lparr>week = 2, home_team = ''BAL'', away_team = ''NYJ'',
       home_score = Some 21, away_score = Some 14, result = Some 7\<rparr>]"

definition mock_week_2_rankings :: "team_ranking list" where
  "mock_week_2_rankings =
     [\<lparr>wins = 2, losses = 0, ties = 0, team = ''KC'', win_pct = 1,
       weighted_wins = 2, weighted_losses = 0, total = 2\<rparr>,
      \<lparr>wins = 1, losses = 1, ties = 0, team = ''BAL'', win_pct = 1 / 2,
       weighted_wins = 0, weighted_losses = 0, total = 0\<rparr>,
      \<lparr>wins = 1, losses = 1, ties = 0, team = ''BUF'', win_pct = 1 / 2,
       weighted_wins = 0, weighted_losses = 0, total = 0\<rparr>,
      \<lparr>wins = 0, losses = 2, ties = 0, team = ''NYJ'', win_pct = 0,
       weighted_wins = 0, weighted_losses = - 2, total = - 2\<rparr>]"

definition run_time :: string where
  "run_time = ''2025-09-16T06:00:00+00:00''"

text \<open>
  The value of the win percentage, and the row that one pass of the loop of
  \<open>calculate_all_rankings\<close> appends for a team; the loop is shown below to
  produce exactly these rows.
\<close>

definition win_pct_value :: "int \<Rightarrow> int \<Rightarrow> int \<Rightarrow> real" where
  "win_pct_value w l t =
     (if w + l + t = 0 then 0 else (of_int w + 0.5 * of_int t) / of_int (w + l + t))"

definition ranking_row :: "schedule \<Rightarrow> string \<Rightarrow> team_ranking" where
  "ranking_row s tm =
     (let rec = get_team_record s tm None
      in \<lparr>wins = wins rec, losses = losses rec, ties = ties rec, team = tm,
          win_pct = py_round (win_pct_value (wins rec) (losses rec) (ties rec)) 3,
          weighted_wins = py_round (calculate_weighted_wins s tm) 2,
          weighted_losses = py_round (calculate_weighted_losses s tm) 2,
          total = py_round (calculate_total_score (calculate_weighted_wins s tm)
                              (calculate_weighted_losses s tm)) 2\<rparr>)"

text \<open>The teams of the completed games.\<close>

definition team_universe :: "schedule \<Rightarrow> string set" where
  "team_universe s =
     set (map home_team (get_game_results s)) \<union> set (map away_team (get_game_results s))"

text \<open>
  The order of the ranking: a higher total first, and among equal totals the
  lexicographically smaller team code first.
\<close>

definition ranked_before :: "team_ranking \<Rightarrow> team_ranking \<Rightarrow> bool" where
  "ranked_before a b = (total b < total a \<or> (total a = total b \<and> team a < team b))"

text \<open>
  The number of completed weeks in the words of the specification: the distinct
  weeks that have a completed game.
\<close>

definition completed_weeks :: "schedule \<Rightarrow> nat" where
  "completed_weeks s = card (set (map week (filter completed_both s)))"

section \<open>Masks are filters\<close>

lemma boolean_index_map: "boolean_index df (map P df) = filter P df"
  by (induction df) (simp_all add: boolean_index_def)

lemma mask_and_map: "mask_and (map P xs) (map Q xs) = map (\<lambda>x. P x \<and> Q x) xs"
  by (induction xs) (simp_all add: mask_and_def)

lemma mask_or_map: "mask_or (map P xs) (map Q xs) = map (\<lambda>x. P x \<or> Q x) xs"
  by (induction xs) (simp_all add: mask_or_def)

lemma notna_map: "notna (map f xs) = map (\<lambda>x. f x \<noteq> None) xs"
  by (simp add: notna_def)

lemma series_eq_map: "series_eq (map f xs) v = map (\<lambda>x. f x = v) xs"
  by (simp add: series_eq_def)

lemma series_le_map: "series_le (map f xs) v = map (\<lambda>x. f x \<le> v) xs"
  by (simp add: series_le_def)

lemma nullable_gt_result: "nullable_gt (map result xs) 0 = map home_win xs"
  by (simp add: nullable_gt_def home_win_def)

lemma nullable_lt_result: "nullable_lt (map result xs) 0 = map away_win xs"
  by (simp add: nullable_lt_def away_win_def)

lemma nullable_eq_result: "nullable_eq (map result xs) 0 = map drawn xs"
  by (simp add: nullable_eq_def drawn_def)

lemmas mask_simps = boolean_index_map mask_and_map mask_or_map notna_map series_eq_map
  series_le_map nullable_gt_result nullable_lt_result nullable_eq_result

lemma get_game_results_filter: "get_game_results s = filter (\<lambda>g. home_score g \<noteq> None) s"
  by (simp add: get_game_results_def mask_simps)

lemma wins_mask:
  "boolean_index c
     (mask_or (mask_and (series_eq (map home_team c) tm) (nullable_gt (map result c) 0))
              (mask_and (series_eq (map away_team c) tm) (nullable_lt (map result c) 0)))
   = filter (is_win tm) c"
  by (simp add: mask_simps is_win_def [abs_def])

lemma losses_mask:
  "boolean_index c
     (mask_or (mask_and (series_eq (map home_team c) tm) (nullable_lt (map result c) 0))
              (mask_and (series_eq (map away_team c) tm) (nullable_gt (map result c) 0)))
   = filter (is_loss tm) c"
  by (simp add: mask_simps is_loss_def [abs_def])

lemma ties_mask:
  "boolean_index c
     (mask_and (mask_or (series_eq (map home_team c) tm) (series_eq (map away_team c) tm))
               (nullable_eq (map result c) 0))
   = filter (is_tie tm) c"
  by (simp add: mask_simps is_tie_def [abs_def])

lemma scope_filter:
  "(if truthy tw
    then boolean_index (get_game_results s)
           (series_le (map week (get_game_results s)) (the tw))
    else get_game_results s) = filter (in_scope tw) s"
  by (cases tw) (auto simp: mask_simps get_game_results_filter in_scope_def intro: filter_cong)

lemma get_team_record_filter:
  "get_team_record s tm tw =
     \<lparr>wins = int (length (filter (is_win tm) (filter (in_scope tw) s))),
      losses = int (length (filter (is_loss tm) (filter (in_scope tw) s))),
      ties = int (length (filter (is_tie tm) (filter (in_scope tw) s)))\<rparr>"
  unfolding get_team_record_def Let_def scope_filter wins_mask losses_mask ties_mask ..

lemma filter_completed_conj:
  "filter P (filter (\<lambda>g. home_score g \<noteq> None) s) = filter (\<lambda>g. home_score g \<noteq> None \<and> P g) s"
  by (simp add: conj_commute)

lemma in_scope_None: "in_scope None = (\<lambda>g. home_score g \<noteq> None)"
  by (simp add: in_scope_def fun_eq_iff)

section \<open>Completed games\<close>




section \<open>Record calculator\<close>

text \<open>
  C5. Without a week bound, the record of a team counts the kept games that are
  a win for it (home with a positive result, or away with a negative one), those
  that are a loss (the symmetric condition) and those that are a tie (the team
  plays and the result is zero). A team that plays in no game has the record
  \<open>{0, 0, 0}\<close>; the function is total, so nothing is raised.
\<close>

theorem get_team_record_counts:
  "wins (get_team_record s tm None) =
     int (length (filter (\<lambda>g. home_score g \<noteq> None \<and> is_win tm g) s)) \<and>
   losses (get_team_record s tm None) =
     int (length (filter (\<lambda>g. home_score g \<noteq> None \<and> is_loss tm g) s)) \<and>
   ties (get_team_record s tm None) =
     int (length (filter (\<lambda>g. home_score g \<noteq> None \<and> is_tie tm g) s)) \<and>
   ((\<forall>g\<in>set s. home_team g \<noteq> tm \<and> away_team g \<noteq> tm) \<longrightarrow>
      get_team_record s tm None = \<lparr>wins = 0, losses = 0, ties = 0\<rparr>)"
  by (auto simp: get_team_record_filter in_scope_None filter_completed_conj filter_empty_conv
      is_win_def is_loss_def is_tie_def)

theorem get_team_record_counts_witness:
  "get_team_record [kc_bal, buf_kc] ''NYJ'' None = \<lparr>wins = 0, losses = 0, ties = 0\<rparr> \<and>
   wins (get_team_record [kc_bal, buf_kc] ''KC'' None) = 2"
  using get_team_record_counts [of "[kc_bal, buf_kc]" "''NYJ''"]
    get_team_record_counts [of "[kc_bal, buf_kc]" "''KC''"]
  by (simp add: kc_bal_def buf_kc_def is_win_def home_win_def away_win_def)

text \<open>
  C8, at the failing input. With \<open>through_week = 0\<close> the test \<open>if through_week:\<close>
  is false and the bound is dropped: the week-1 game is counted, although its
  week exceeds the bound.
\<close>

theorem get_team_record_through_week_zero:
  "week kc_bal = 1 \<and>
   get_team_record [kc_bal] ''KC'' (Some 0) = \<lparr>wins = 1, losses = 0, ties = 0\<rparr>"
  by (simp add: get_team_record_filter in_scope_def kc_bal_def is_win_def is_loss_def
      is_tie_def home_win_def away_win_def drawn_def)

text \<open>
  Apart from a bound of \<open>0\<close>, the record classifies every game once: where no team
  plays itself and the result is known exactly for the completed games, wins,
  losses and ties add up to the completed games within the bound that the team
  plays in.
\<close>

lemma length_filter_three_way:
  assumes "\<forall>x\<in>set xs. (P x \<or> Q x \<or> R x) = S x"
    and "\<forall>x\<in>set xs. \<not> (P x \<and> Q x) \<and> \<not> (P x \<and> R x) \<and> \<not> (Q x \<and> R x)"
  shows "length (filter P xs) + length (filter Q xs) + length (filter R xs) = length (filter S xs)"
  using assms by (induction xs) auto

lemma outcome_cases:
  "result g \<noteq> None \<Longrightarrow>
     (home_win g \<or> away_win g \<or> drawn g) \<and> \<not> (home_win g \<and> away_win g) \<and>
     \<not> (home_win g \<and> drawn g) \<and> \<not> (away_win g \<and> drawn g)"
  by (auto simp: home_win_def away_win_def drawn_def)

lemma outcome_known: "home_win g \<or> away_win g \<or> drawn g \<Longrightarrow> result g \<noteq> None"
  by (auto simp: home_win_def away_win_def drawn_def split: option.splits)

lemma record_classifies_each_game:
  assumes no_self: "\<forall>g\<in>set s. home_team g \<noteq> away_team g"
    and results: "\<forall>g\<in>set s. (result g \<noteq> None) = completed_both g"
    and bound: "tw \<noteq> Some 0"
  shows "wins (get_team_record s tm tw) + losses (get_team_record s tm tw)
           + ties (get_team_record s tm tw) =
         int (length (filter (\<lambda>g. completed_both g \<and>
                (case tw of None \<Rightarrow> True | Some w \<Rightarrow> week g \<le> w) \<and>
                (home_team g = tm \<or> away_team g = tm)) s))"
proof -
  let ?S = "\<lambda>g. completed_both g \<and> (case tw of None \<Rightarrow> True | Some w \<Rightarrow> week g \<le> w) \<and>
                (home_team g = tm \<or> away_team g = tm)"
  let ?W = "\<lambda>g. in_scope tw g \<and> is_win tm g"
  let ?L = "\<lambda>g. in_scope tw g \<and> is_loss tm g"
  let ?T = "\<lambda>g. in_scope tw g \<and> is_tie tm g"
  have cover: "(?W g \<or> ?L g \<or> ?T g) = ?S g" if "g \<in> set s" for g
  proof (cases "result g = None")
    case True
    with results that have "\<not> completed_both g" by blast
    moreover from True have "\<not> home_win g" "\<not> away_win g" "\<not> drawn g"
      using outcome_known [of g] by auto
    ultimately show ?thesis by (simp add: is_win_def is_loss_def is_tie_def)
  next
    case False
    with results that have both: "completed_both g" by blast
    then have scored: "home_score g \<noteq> None" by (simp add: completed_both_def)
    from bound have scope: "in_scope tw g = (case tw of None \<Rightarrow> True | Some w \<Rightarrow> week g \<le> w)"
      by (cases tw) (simp_all add: in_scope_def scored)
    from outcome_cases [OF False] both show ?thesis
      unfolding scope is_win_def is_loss_def is_tie_def by blast
  qed
  have apart: "\<not> (?W g \<and> ?L g) \<and> \<not> (?W g \<and> ?T g) \<and> \<not> (?L g \<and> ?T g)" if "g \<in> set s" for g
  proof (cases "result g = None")
    case True
    then have "\<not> home_win g" "\<not> away_win g" "\<not> drawn g"
      using outcome_known [of g] by auto
    then show ?thesis by (simp add: is_win_def is_loss_def is_tie_def)
  next
    case False
    from no_self that have "home_team g \<noteq> away_team g" by blast
    with outcome_cases [OF False] show ?thesis
      unfolding is_win_def is_loss_def is_tie_def by auto
  qed
  have "length (filter ?W s) + length (filter ?L s) + length (filter ?T s) = length (filter ?S s)"
    by (rule length_filter_three_way) (use cover apart in blast)+
  then have "int (length (filter ?W s)) + int (length (filter ?L s)) + int (length (filter ?T s))
      = int (length (filter ?S s))"
    by linarith
  then show ?thesis
    by (simp add: get_team_record_filter conj_commute)
qed

text \<open>
  C10, at the failing input. With \<open>through_week = 0\<close> the record of KC adds up to
  one game, while no completed game of week \<open>0\<close> or earlier involves KC.
\<close>

theorem record_total_through_week_zero:
  "home_team kc_bal \<noteq> away_team kc_bal \<and>
   wins (get_team_record [kc_bal] ''KC'' (Some 0))
     + losses (get_team_record [kc_bal] ''KC'' (Some 0))
     + ties (get_team_record [kc_bal] ''KC'' (Some 0)) = 1 \<and>
   length (filter (\<lambda>g. completed_both g \<and> week g \<le> 0 \<and>
                        (home_team g = ''KC'' \<or> away_team g = ''KC'')) [kc_bal]) = 0"
  by (simp add: get_team_record_filter in_scope_def kc_bal_def is_win_def is_loss_def
      is_tie_def home_win_def away_win_def drawn_def completed_both_def)

section \<open>Score calculator\<close>

text \<open>
  C7. For non-negative \<open>wins\<close>, \<open>losses\<close> and \<open>ties\<close>, the win percentage is
  returned, never the division error: it is \<open>(wins + 0.5 * ties) / (wins + losses +
  ties)\<close> when a game was played and \<open>0\<close> when none was, and it lies between \<open>0\<close>
  and \<open>1\<close>.
\<close>

theorem calculate_win_percentage_value:
  assumes "0 \<le> w" "0 \<le> l" "0 \<le> t"
  shows "\<exists>p. calculate_win_percentage w l t = Inr p \<and>
           (0 < w + l + t \<longrightarrow> p = (of_int w + 0.5 * of_int t) / of_int (w + l + t)) \<and>
           (w + l + t = 0 \<longrightarrow> p = 0) \<and> 0 \<le> p \<and> p \<le> 1"
proof (cases "w + l + t = 0")
  case True
  then show ?thesis by (simp add: calculate_win_percentage_def)
next
  case False
  with assms have pos: "0 < w + l + t" by linarith
  have le: "of_int w + 0.5 * of_int t \<le> (of_int (w + l + t) :: real)"
    using assms by simp
  have ge: "(0::real) \<le> of_int w + 0.5 * of_int t"
    using assms by simp
  from pos have rpos: "(0::real) < of_int (w + l + t)" by linarith
  show ?thesis
    using False pos le ge rpos
    by (simp add: calculate_win_percentage_def truediv_def Let_def del: of_int_add)
qed

theorem calculate_win_percentage_value_witness:
  "calculate_win_percentage 2 1 1 = Inr (5 / 8) \<and> calculate_win_percentage 0 0 0 = Inr 0"
  using calculate_win_percentage_value [of 2 1 1] calculate_win_percentage_value [of 0 0 0]
  by auto

lemma fold_add_sum_list:
  "fold (\<lambda>g acc. acc + f g) xs (a::real) = a + sum_list (map f xs)"
  by (induction xs arbitrary: a) simp_all

lemma fold_sub_sum_list:
  "fold (\<lambda>g acc. acc - f g) xs (a::real) = a - sum_list (map f xs)"
  by (induction xs arbitrary: a) simp_all

lemma calculate_weighted_wins_sum:
  "calculate_weighted_wins s tm =
     (\<Sum>g\<leftarrow>filter (\<lambda>g. home_score g \<noteq> None \<and> is_win tm g) s.
        of_int (wins (get_team_record s (opponent g tm) None)))"
  by (simp add: calculate_weighted_wins_def Let_def wins_mask fold_add_sum_list
      get_game_results_filter filter_completed_conj)

lemma calculate_weighted_losses_sum:
  "calculate_weighted_losses s tm =
     - (\<Sum>g\<leftarrow>filter (\<lambda>g. home_score g \<noteq> None \<and> is_loss tm g) s.
        of_int (losses (get_team_record s (opponent g tm) None)))"
  by (simp add: calculate_weighted_losses_def Let_def losses_mask fold_sub_sum_list
      get_game_results_filter filter_completed_conj)

lemma sum_list_of_int: "(\<Sum>x\<leftarrow>xs. (of_int (f x) :: real)) = of_int (\<Sum>x\<leftarrow>xs. f x)"
  by (induction xs) simp_all




lemma weighted_wins_integer: "\<exists>k. calculate_weighted_wins s tm = of_int k"
  unfolding calculate_weighted_wins_sum sum_list_of_int by blast

lemma weighted_losses_integer: "\<exists>k. calculate_weighted_losses s tm = of_int k"
proof -
  have "calculate_weighted_losses s tm =
      of_int (- (\<Sum>g\<leftarrow>filter (\<lambda>g. home_score g \<noteq> None \<and> is_loss tm g) s.
                  losses (get_team_record s (opponent g tm) None)))"
    unfolding calculate_weighted_losses_sum sum_list_of_int by simp
  then show ?thesis by blast
qed

text \<open>Rounding leaves an integer as it is.\<close>

lemma py_round_of_int: "py_round (of_int k) n = of_int k"
proof -
  have "(of_int k :: real) * 10 ^ n = of_int (k * 10 ^ n)" by simp
  then have fl: "\<lfloor>(of_int k :: real) * 10 ^ n\<rfloor> = k * 10 ^ n"
    by (metis floor_of_int)
  show ?thesis
    unfolding py_round_def Let_def fl by simp
qed

lemma calculate_win_percentage_total:
  "calculate_win_percentage w l t = Inr (win_pct_value w l t)"
  by (simp add: calculate_win_percentage_def win_pct_value_def truediv_def Let_def
      del: of_int_add)

lemma rank_teams_rows: "rank_teams s ts acc = Inr (acc @ map (ranking_row s) ts)"
  by (induction ts arbitrary: acc)
     (simp_all add: calculate_win_percentage_total ranking_row_def Let_def)

lemma calculate_all_rankings_rows:
  "calculate_all_rankings s =
     Inr (sort_reverse total (map (ranking_row s) (sorted_list_of_set (team_universe s))))"
  by (simp add: calculate_all_rankings_def Let_def rank_teams_rows team_universe_def)

lemma mock_week_2_evaluated:
  "calculate_all_rankings mock_week_2_schedule = Inr mock_week_2_rankings"
  by code_simp

lemma set_sort_reverse: "set (sort_reverse key xs) = set xs"
  by (simp add: sort_reverse_def)

lemma rankings_are_rows:
  assumes "calculate_all_rankings s = Inr rs" and "r \<in> set rs"
  shows "\<exists>tm. r = ranking_row s tm"
  using assms by (auto simp: calculate_all_rankings_rows set_sort_reverse)

lemma ranking_row_scores:
  "weighted_wins (ranking_row s tm) = calculate_weighted_wins s tm"
  "weighted_losses (ranking_row s tm) = calculate_weighted_losses s tm"
  "total (ranking_row s tm) = calculate_weighted_wins s tm + calculate_weighted_losses s tm"
proof -
  obtain a b where a: "calculate_weighted_wins s tm = of_int a"
    and b: "calculate_weighted_losses s tm = of_int b"
    using weighted_wins_integer weighted_losses_integer by blast
  have ab: "(of_int a :: real) + of_int b = of_int (a + b)" by simp
  show "weighted_wins (ranking_row s tm) = calculate_weighted_wins s tm"
    by (simp add: ranking_row_def Let_def a py_round_of_int)
  show "weighted_losses (ranking_row s tm) = calculate_weighted_losses s tm"
    by (simp add: ranking_row_def Let_def b py_round_of_int)
  show "total (ranking_row s tm) = calculate_weighted_wins s tm + calculate_weighted_losses s tm"
    unfolding ranking_row_def Let_def calculate_total_score_def a b ab
    by (simp add: py_round_of_int del: of_int_add)
qed

text \<open>
  In a game that a team won, the opponent the loop resolves is the side that lost
  the game: the away team when the home side won, the home team otherwise.
\<close>

lemma opponent_of_won_game:
  "is_win tm g \<Longrightarrow> opponent g tm = (if home_win g then away_team g else home_team g)"
  by (auto simp: is_win_def opponent_def home_win_def away_win_def split: option.splits)

text \<open>
  C2. The weighted wins of a team are the sum, over the kept games the team won,
  of the wins in the unbounded record of the beaten side of that game (the away
  team when the home side won, the home team when the away side won); a team
  whose record has no win has weighted wins \<open>0\<close>.
\<close>

theorem weighted_wins_sums_opponent_wins:
  "calculate_weighted_wins s tm =
     (\<Sum>g\<leftarrow>filter (\<lambda>g. home_score g \<noteq> None \<and> is_win tm g) s.
        of_int (wins (get_team_record s
           (if home_win g then away_team g else home_team g) None))) \<and>
   (wins (get_team_record s tm None) = 0 \<longrightarrow> calculate_weighted_wins s tm = 0)"
proof -
  have none: "filter (\<lambda>g. home_score g \<noteq> None \<and> is_win tm g) s = []"
    if "wins (get_team_record s tm None) = 0"
    using that by (simp add: get_team_record_filter in_scope_None filter_completed_conj)
  have "map (\<lambda>g. real_of_int (wins (get_team_record s (opponent g tm) None)))
          (filter (\<lambda>g. home_score g \<noteq> None \<and> is_win tm g) s) =
        map (\<lambda>g. real_of_int (wins (get_team_record s
                  (if home_win g then away_team g else home_team g) None)))
          (filter (\<lambda>g. home_score g \<noteq> None \<and> is_win tm g) s)"
    by (rule map_cong) (simp_all add: opponent_of_won_game)
  then have "calculate_weighted_wins s tm =
     (\<Sum>g\<leftarrow>filter (\<lambda>g. home_score g \<noteq> None \<and> is_win tm g) s.
        of_int (wins (get_team_record s
           (if home_win g then away_team g else home_team g) None)))"
    by (simp only: calculate_weighted_wins_sum)
  with none show ?thesis by simp
qed

text \<open>
  On the fixture: NYJ won nothing and has weighted wins \<open>0\<close>; KC beat BAL and BUF,
  who have one win each, and has weighted wins \<open>2\<close>.
\<close>

theorem weighted_wins_sums_opponent_wins_witness:
  "wins (get_team_record mock_week_2_schedule ''NYJ'' None) = 0 \<and>
   calculate_weighted_wins mock_week_2_schedule ''NYJ'' = 0 \<and>
   wins (get_team_record mock_week_2_schedule ''BAL'' None) = 1 \<and>
   wins (get_team_record mock_week_2_schedule ''BUF'' None) = 1 \<and>
   calculate_weighted_wins mock_week_2_schedule ''KC'' = 2"
proof -
  have none: "wins (get_team_record mock_week_2_schedule ''NYJ'' None) = 0"
    by code_simp
  have bal: "wins (get_team_record mock_week_2_schedule ''BAL'' None) = 1"
    by code_simp
  have buf: "wins (get_team_record mock_week_2_schedule ''BUF'' None) = 1"
    by code_simp
  have beaten:
    "(\<Sum>g\<leftarrow>filter (\<lambda>g. home_score g \<noteq> None \<and> is_win ''KC'' g) mock_week_2_schedule.
        real_of_int (wins (get_team_record mock_week_2_schedule
           (if home_win g then away_team g else home_team g) None))) =
      real_of_int (wins (get_team_record mock_week_2_schedule ''BAL'' None)) +
      real_of_int (wins (get_team_record mock_week_2_schedule ''BUF'' None))"
    by (simp add: mock_week_2_schedule_def is_win_def home_win_def away_win_def)
  from weighted_wins_sums_opponent_wins [of mock_week_2_schedule "''NYJ''"]
    weighted_wins_sums_opponent_wins [of mock_week_2_schedule "''KC''"]
    none bal buf beaten
  show ?thesis by simp
qed



section \<open>Ranking engine\<close>

text \<open>
  The stable descending sort of a list that is in strictly ascending order of a
  tie-break key: descending in the sort key, ascending in the tie-break key among
  equal sort keys.
\<close>

lemma insort_key_tiebreak:
  fixes key :: "'a \<Rightarrow> 'k::linorder" and tb :: "'a \<Rightarrow> 't::order"
  assumes "sorted_wrt (\<lambda>a b. key a < key b \<or> (key a = key b \<and> tb b < tb a)) zs"
    and "\<forall>z\<in>set zs. tb z < tb y"
  shows "sorted_wrt (\<lambda>a b. key a < key b \<or> (key a = key b \<and> tb b < tb a))
           (insort_key key y zs)"
  using assms
proof (induction zs)
  case Nil
  then show ?case by simp
next
  case (Cons z zs)
  show ?case
  proof (cases "key y \<le> key z")
    case True
    have "key y < key v \<or> (key y = key v \<and> tb v < tb y)" if "v \<in> set (z # zs)" for v
    proof -
      have "key z \<le> key v" using that Cons.prems(1) by auto
      with True have "key y \<le> key v" by simp
      moreover have "tb v < tb y" using that Cons.prems(2) by auto
      ultimately show ?thesis by auto
    qed
    with True Cons.prems(1) show ?thesis by simp
  next
    case False
    then have "key z < key y" by simp
    with False Cons show ?thesis by (auto simp: set_insort_key)
  qed
qed

lemma sort_key_tiebreak:
  fixes key :: "'a \<Rightarrow> 'k::linorder" and tb :: "'a \<Rightarrow> 't::order"
  assumes "sorted_wrt (\<lambda>a b. tb b < tb a) ys"
  shows "sorted_wrt (\<lambda>a b. key a < key b \<or> (key a = key b \<and> tb b < tb a)) (sort_key key ys)"
  using assms by (induction ys) (auto intro: insort_key_tiebreak)

lemma sort_reverse_tiebreak:
  fixes key :: "'a \<Rightarrow> 'k::linorder" and tb :: "'a \<Rightarrow> 't::order"
  assumes "sorted_wrt (\<lambda>a b. tb a < tb b) xs"
  shows "sorted_wrt (\<lambda>a b. key b < key a \<or> (key a = key b \<and> tb a < tb b))
           (sort_reverse key xs)"
proof -
  have "sorted_wrt (\<lambda>a b. tb b < tb a) (rev xs)"
    using assms by (simp add: sorted_wrt_rev)
  then have "sorted_wrt (\<lambda>a b. key a < key b \<or> (key a = key b \<and> tb b < tb a))
      (sort_key key (rev xs))"
    by (rule sort_key_tiebreak)
  then have "sorted_wrt (\<lambda>b a. key a < key b \<or> (key a = key b \<and> tb b < tb a))
      (sort_reverse key xs)"
    by (simp add: sort_reverse_def sorted_wrt_rev)
  then show ?thesis
    by (rule sorted_wrt_mono_rel [rotated]) auto
qed

lemma team_ranking_row: "team (ranking_row s tm) = tm"
  by (simp add: ranking_row_def Let_def)

lemma rows_sorted_by_team:
  "sorted_wrt (\<lambda>a b. team a < team b) (map (ranking_row s) (sorted_list_of_set A))"
  by (simp add: sorted_wrt_map team_ranking_row)

text \<open>
  C4. The ranking is returned, and every row stands before every later row in
  the ranking order: its total is higher, or the totals are equal and its team
  code is the lexicographically smaller one. The ranking is a function of the
  schedule, and no other criterion enters the order.
\<close>

theorem rankings_sorted_by_total_then_team:
  "\<exists>rs. calculate_all_rankings s = Inr rs \<and> sorted_wrt ranked_before rs"
  unfolding calculate_all_rankings_rows ranked_before_def [abs_def]
  using sort_reverse_tiebreak [OF rows_sorted_by_team, of total s "team_universe s"]
  by simp

text \<open>
  C6. In every row of every ranking the emitted total is the sum of the emitted
  weighted wins and weighted losses, exactly and hence within \<open>0.01\<close>: the three
  values are integers, which rounding to two places leaves unchanged.
\<close>

theorem total_is_sum_of_emitted_scores:
  "\<exists>rs. calculate_all_rankings s = Inr rs \<and>
     (\<forall>r\<in>set rs. total r = weighted_wins r + weighted_losses r \<and>
                 \<bar>total r - (weighted_wins r + weighted_losses r)\<bar> \<le> 1 / 100)"
proof -
  obtain rs where rs: "calculate_all_rankings s = Inr rs"
    by (simp add: calculate_all_rankings_rows)
  have "total r = weighted_wins r + weighted_losses r" if "r \<in> set rs" for r
    using rankings_are_rows [OF rs that] by (auto simp: ranking_row_scores)
  with rs show ?thesis by auto
qed

theorem total_is_sum_of_emitted_scores_witness:
  "calculate_all_rankings mock_week_2_schedule = Inr mock_week_2_rankings \<and>
   mock_week_2_rankings ! 0 \<in> set mock_week_2_rankings \<and>
   total (mock_week_2_rankings ! 0) =
     weighted_wins (mock_week_2_rankings ! 0) + weighted_losses (mock_week_2_rankings ! 0)"
  using total_is_sum_of_emitted_scores [of mock_week_2_schedule] mock_week_2_evaluated
  by (simp add: mock_week_2_rankings_def)

section \<open>The run\<close>

lemma main_gate:
  "main now (Some s) =
     (if get_current_week s < 2 then Inr None
      else Inr (Some (format_week_data now (get_current_week s)
             (sort_reverse total (map (ranking_row s) (sorted_list_of_set (team_universe s)))))))"
  by (simp add: main_def Let_def calculate_all_rankings_rows)

text \<open>
  C9 (as amended). The run returns without a ranking and without a snapshot, and
  without an error, exactly when no game is kept as completed or the latest
  completed week number is below \<open>2\<close>. Where the completed weeks are the weeks \<open>1\<close>
  to \<open>k\<close> without a gap, this is the case of fewer than two completed weeks.
\<close>

theorem early_exit_below_week_two:
  "(main now (Some s) = Inr None \<longleftrightarrow>
      get_game_results s = [] \<or> Max (set (map week (get_game_results s))) < 2) \<and>
   (set (map week (get_game_results s)) = {1..k} \<longrightarrow>
      (main now (Some s) = Inr None \<longleftrightarrow> k < 2))"
proof -
  have iff: "main now (Some s) = Inr None \<longleftrightarrow>
      get_game_results s = [] \<or> Max (set (map week (get_game_results s))) < 2"
    by (simp add: main_gate get_current_week_def Let_def)
  have "(main now (Some s) = Inr None \<longleftrightarrow> k < 2)"
    if "set (map week (get_game_results s)) = {1..k}"
  proof (cases "get_game_results s = []")
    case True
    with that have "{1..k} = {}" by simp
    then have "k < 1" by simp
    with True iff show ?thesis by simp
  next
    case False
    with that have "{1..k} \<noteq> {}" by (metis set_empty map_is_Nil_conv)
    then have "Max {1..k} = k" by (intro Max_eqI) auto
    with False that iff show ?thesis by simp
  qed
  with iff show ?thesis by blast
qed

theorem early_exit_below_week_two_witness:
  "main run_time (Some [kc_bal]) = Inr None \<and> main run_time (Some [unplayed]) = Inr None"
  using early_exit_below_week_two [of run_time "[kc_bal]" 1]
    early_exit_below_week_two [of run_time "[unplayed]" 0]
  by (simp add: get_game_results_filter kc_bal_def unplayed_def)

text \<open>
  C9 as stated fails: when the only completed game is one of week 2, a single
  week is completed, and the run goes on to the ranking and the snapshot.
\<close>

theorem single_late_week_counterexample:
  "completed_weeks [buf_kc] = 1 \<and> main run_time (Some [buf_kc]) \<noteq> Inr None"
  by (simp add: completed_weeks_def completed_both_def buf_kc_def main_gate
      get_current_week_def get_game_results_filter)

end
